theory Spec2Isabelle
  imports Complex_Main "HOL-Library.Word"
begin

section \<open>Pixel formats (utils.py)\<close>

text \<open>
  The pixel-format codes are the members of the vendor SDK's enumeration
  \<^verbatim>\<open>MvGvspPixelType\<close>; the Python sources name them and compare them for equality
  only. The members the sources name are the constructors below;
  \<open>PixelType_Other n\<close> stands for the code \<open>n\<close> of any member the sources do not name.
\<close>

datatype MvGvspPixelType =
    PixelType_Gvsp_Undefined
  | PixelType_Gvsp_Mono8
  | PixelType_Gvsp_Mono10
  | PixelType_Gvsp_Mono10_Packed
  | PixelType_Gvsp_Mono12
  | PixelType_Gvsp_Mono12_Packed
  | PixelType_Gvsp_Mono16
  | PixelType_Gvsp_BayerGR8
  | PixelType_Gvsp_BayerRG8
  | PixelType_Gvsp_BayerGB8
  | PixelType_Gvsp_BayerBG8
  | PixelType_Gvsp_BayerGR10
  | PixelType_Gvsp_BayerRG10
  | PixelType_Gvsp_BayerGB10
  | PixelType_Gvsp_BayerBG10
  | PixelType_Gvsp_BayerGR12
  | PixelType_Gvsp_BayerRG12
  | PixelType_Gvsp_BayerGB12
  | PixelType_Gvsp_BayerBG12
  | PixelType_Gvsp_BayerGR10_Packed
  | PixelType_Gvsp_BayerRG10_Packed
  | PixelType_Gvsp_BayerGB10_Packed
  | PixelType_Gvsp_BayerBG10_Packed
  | PixelType_Gvsp_BayerGR12_Packed
  | PixelType_Gvsp_BayerRG12_Packed
  | PixelType_Gvsp_BayerGB12_Packed
  | PixelType_Gvsp_BayerBG12_Packed
  | PixelType_Gvsp_RGB8_Packed
  | PixelType_Gvsp_BGR8_Packed
  | PixelType_Gvsp_RGBA8_Packed
  | PixelType_Gvsp_BGRA8_Packed
  | PixelType_Gvsp_YUV422_Packed
  | PixelType_Gvsp_YUV422_YUYV_Packed
  | PixelType_Other nat

text \<open>The dictionary \<^verbatim>\<open>BAYER_TO_COLOR_CODE\<close>, in the order of the source.\<close>

definition BAYER_TO_COLOR_CODE :: "(MvGvspPixelType \<times> nat) list" where
  "BAYER_TO_COLOR_CODE =
    [(PixelType_Gvsp_BayerGR8, 0),
     (PixelType_Gvsp_BayerRG8, 1),
     (PixelType_Gvsp_BayerGB8, 2),
     (PixelType_Gvsp_BayerBG8, 3),
     (PixelType_Gvsp_BayerGR10, 0),
     (PixelType_Gvsp_BayerRG10, 1),
     (PixelType_Gvsp_BayerGB10, 2),
     (PixelType_Gvsp_BayerBG10, 3),
     (PixelType_Gvsp_BayerGR12, 0),
     (PixelType_Gvsp_BayerRG12, 1),
     (PixelType_Gvsp_BayerGB12, 2),
     (PixelType_Gvsp_BayerBG12, 3),
     (PixelType_Gvsp_BayerGR10_Packed, 0),
     (PixelType_Gvsp_BayerRG10_Packed, 1),
     (PixelType_Gvsp_BayerGB10_Packed, 2),
     (PixelType_Gvsp_BayerBG10_Packed, 3),
     (PixelType_Gvsp_BayerGR12_Packed, 0),
     (PixelType_Gvsp_BayerRG12_Packed, 1),
     (PixelType_Gvsp_BayerGB12_Packed, 2),
     (PixelType_Gvsp_BayerBG12_Packed, 3)]"

definition is_bayer_format :: "MvGvspPixelType \<Rightarrow> bool" where
  "is_bayer_format pixel_type = (map_of BAYER_TO_COLOR_CODE pixel_type \<noteq> None)"

definition is_mono_format :: "MvGvspPixelType \<Rightarrow> bool" where
  "is_mono_format pixel_type =
     (pixel_type \<in> set [PixelType_Gvsp_Mono8, PixelType_Gvsp_Mono10,
        PixelType_Gvsp_Mono10_Packed, PixelType_Gvsp_Mono12,
        PixelType_Gvsp_Mono12_Packed, PixelType_Gvsp_Mono16])"

definition is_rgb_format :: "MvGvspPixelType \<Rightarrow> bool" where
  "is_rgb_format pixel_type =
     (pixel_type \<in> set [PixelType_Gvsp_RGB8_Packed, PixelType_Gvsp_BGR8_Packed,
        PixelType_Gvsp_RGBA8_Packed, PixelType_Gvsp_BGRA8_Packed])"

text \<open>Python's \<^verbatim>\<open>format(n, 'x')\<close> on a non-negative integer.\<close>

definition hex_digit :: "nat \<Rightarrow> char" where
  "hex_digit d = ''0123456789abcdef'' ! d"

function hex :: "nat \<Rightarrow> string" where
  "hex n = (if n < 16 then [hex_digit n] else hex (n div 16) @ [hex_digit (n mod 16)])"
  by pat_completeness auto
termination
  by (relation "measure id") auto

fun get_pixel_format_name :: "MvGvspPixelType \<Rightarrow> string" where
  "get_pixel_format_name PixelType_Gvsp_Undefined = ''Undefined''"
| "get_pixel_format_name PixelType_Gvsp_Mono8 = ''Mono8''"
| "get_pixel_format_name PixelType_Gvsp_Mono10 = ''Mono10''"
| "get_pixel_format_name PixelType_Gvsp_Mono10_Packed = ''Mono10_Packed''"
| "get_pixel_format_name PixelType_Gvsp_Mono12 = ''Mono12''"
| "get_pixel_format_name PixelType_Gvsp_Mono12_Packed = ''Mono12_Packed''"
| "get_pixel_format_name PixelType_Gvsp_Mono16 = ''Mono16''"
| "get_pixel_format_name PixelType_Gvsp_BayerGR8 = ''BayerGR8''"
| "get_pixel_format_name PixelType_Gvsp_BayerRG8 = ''BayerRG8''"
| "get_pixel_format_name PixelType_Gvsp_BayerGB8 = ''BayerGB8''"
| "get_pixel_format_name PixelType_Gvsp_BayerBG8 = ''BayerBG8''"
| "get_pixel_format_name PixelType_Gvsp_BayerGR10 = ''BayerGR10''"
| "get_pixel_format_name PixelType_Gvsp_BayerRG10 = ''BayerRG10''"
| "get_pixel_format_name PixelType_Gvsp_BayerGB10 = ''BayerGB10''"
| "get_pixel_format_name PixelType_Gvsp_BayerBG10 = ''BayerBG10''"
| "get_pixel_format_name PixelType_Gvsp_BayerGR10_Packed = ''BayerGR10_Packed''"
| "get_pixel_format_name PixelType_Gvsp_BayerRG10_Packed = ''BayerRG10_Packed''"
| "get_pixel_format_name PixelType_Gvsp_BayerGB10_Packed = ''BayerGB10_Packed''"
| "get_pixel_format_name PixelType_Gvsp_BayerBG10_Packed = ''BayerBG10_Packed''"
| "get_pixel_format_name PixelType_Gvsp_BayerGR12 = ''BayerGR12''"
| "get_pixel_format_name PixelType_Gvsp_BayerRG12 = ''BayerRG12''"
| "get_pixel_format_name PixelType_Gvsp_BayerGB12 = ''BayerGB12''"
| "get_pixel_format_name PixelType_Gvsp_BayerBG12 = ''BayerBG12''"
| "get_pixel_format_name PixelType_Gvsp_BayerGR12_Packed = ''BayerGR12_Packed''"
| "get_pixel_format_name PixelType_Gvsp_BayerRG12_Packed = ''BayerRG12_Packed''"
| "get_pixel_format_name PixelType_Gvsp_BayerGB12_Packed = ''BayerGB12_Packed''"
| "get_pixel_format_name PixelType_Gvsp_BayerBG12_Packed = ''BayerBG12_Packed''"
| "get_pixel_format_name PixelType_Gvsp_RGB8_Packed = ''RGB8_Packed''"
| "get_pixel_format_name PixelType_Gvsp_BGR8_Packed = ''BGR8_Packed''"
| "get_pixel_format_name PixelType_Gvsp_RGBA8_Packed = ''RGBA8_Packed''"
| "get_pixel_format_name PixelType_Gvsp_BGRA8_Packed = ''BGRA8_Packed''"
| "get_pixel_format_name PixelType_Gvsp_YUV422_Packed = ''YUV422_Packed''"
| "get_pixel_format_name PixelType_Gvsp_YUV422_YUYV_Packed = ''YUV422_YUYV_Packed''"
| "get_pixel_format_name (PixelType_Other n) = ''Unknown(0x'' @ hex n @ '')''"

section \<open>Errors\<close>

text \<open>
  Every \<^verbatim>\<open>raise HikCameraError(...)\<close> of hikcamera.py is one constructor of
  \<open>hik_error\<close>, carrying the native status where the message prints one. The other
  exception classes that can leave the modelled code are constructors of \<open>error\<close>.
\<close>

datatype hik_error =
    SDKInitFailed int
  | EnumDevicesFailed int
  | NoDeviceFound
  | IndexOutOfRange int nat
  | CreateHandleFailed int
  | OpenDeviceFailed int
  | PayloadSizeFailed int
  | StartGrabbingFailed int
  | StopGrabbingFailed int
  | NotStreaming
  | GetImageFailed int
  | WrongTriggerMode
  | TriggerFailed int
  | NullBuffer
  | UnsupportedPixelFormat string
  | SetFailed string int
  | GetFailed string int
  | InvalidTriggerMode string

datatype error =
    HikCameraError hik_error
  | ValueError string
  | AttributeError
  | NullPointerAccess
  | BufferOverrun
  | cv2_error

section \<open>Frame conversion (hikcamera.py, \<^verbatim>\<open>_convert_frame_to_bgr\<close>)\<close>

text \<open>
  A numpy array of dtype uint8: its shape and its elements in row-major order.
\<close>

record ndarray =
  shape :: "nat list"
  data :: "8 word list"

text \<open>
  \<^verbatim>\<open>MV_FRAME_OUT\<close> with the fields of \<^verbatim>\<open>stFrameInfo\<close> the converter reads.
  \<open>pBufAddr\<close> is \<open>None\<close> for a null pointer, otherwise the bytes of the driver's buffer.
\<close>

record MV_FRAME_OUT =
  pBufAddr :: "8 word list option"
  nWidth :: nat
  nHeight :: nat
  enPixelType :: MvGvspPixelType
  nFrameLen :: nat

text \<open>
  \<^verbatim>\<open>copy_bytes\<close> moves \<open>length\<close> bytes out of the buffer. Reading past the end of
  the driver's buffer is not defined behaviour of the program; the model makes it the
  error \<open>BufferOverrun\<close>.
\<close>

definition copy_bytes :: "8 word list \<Rightarrow> nat \<Rightarrow> error + 8 word list" where
  "copy_bytes source len =
     (if len \<le> length source then Inr (take len source) else Inl BufferOverrun)"

definition frombuffer :: "8 word list \<Rightarrow> ndarray" where
  "frombuffer bs = \<lparr>shape = [length bs], data = bs\<rparr>"

text \<open>
  \<^verbatim>\<open>ndarray.reshape\<close>: numpy raises ValueError unless the new shape has as many
  elements as the array.
\<close>

definition reshape :: "ndarray \<Rightarrow> nat list \<Rightarrow> error + ndarray" where
  "reshape a dims =
     (if prod_list dims = length (data a) then Inr (a\<lparr>shape := dims\<rparr>)
      else Inl (ValueError ''cannot reshape array''))"

text \<open>
  The conversion codes of OpenCV the converter passes to \<^verbatim>\<open>cv2.cvtColor\<close>. OpenCV
  is an external library: \<^verbatim>\<open>cv2.cvtColor\<close> is a parameter \<open>cvtColor\<close> of the
  converter, a function from the array and the code to an error or an array.
\<close>

datatype cv_code =
    COLOR_RGB2BGR
  | COLOR_RGBA2BGR
  | COLOR_BGRA2BGR
  | COLOR_BAYER_GR2BGR
  | COLOR_BAYER_RG2BGR
  | COLOR_BAYER_GB2BGR
  | COLOR_BAYER_BG2BGR
  | COLOR_GRAY2BGR

type_synonym cvt = "ndarray \<Rightarrow> cv_code \<Rightarrow> error + ndarray"

definition bind_err :: "error + 'a \<Rightarrow> ('a \<Rightarrow> error + 'b) \<Rightarrow> error + 'b" where
  "bind_err r f = (case r of Inl e \<Rightarrow> Inl e | Inr x \<Rightarrow> f x)"

definition convert_frame_to_bgr :: "cvt \<Rightarrow> MV_FRAME_OUT \<Rightarrow> error + ndarray" where
  "convert_frame_to_bgr cvtColor stOutFrame =
    (let width = nWidth stOutFrame;
         height = nHeight stOutFrame;
         pixel_type = enPixelType stOutFrame;
         frame_len = nFrameLen stOutFrame
     in case pBufAddr stOutFrame of
          None \<Rightarrow> Inl (HikCameraError NullBuffer)
        | Some pData \<Rightarrow>
            bind_err (copy_bytes pData frame_len) (\<lambda>bs.
              let image_array = frombuffer bs in
              if is_rgb_format pixel_type then
                if pixel_type = PixelType_Gvsp_RGB8_Packed then
                  bind_err (reshape image_array [height, width, 3])
                    (\<lambda>image. cvtColor image COLOR_RGB2BGR)
                else if pixel_type = PixelType_Gvsp_BGR8_Packed then
                  reshape image_array [height, width, 3]
                else
                  bind_err (reshape image_array [height, width, 4]) (\<lambda>image.
                    if pixel_type = PixelType_Gvsp_RGBA8_Packed
                    then cvtColor image COLOR_RGBA2BGR
                    else cvtColor image COLOR_BGRA2BGR)
              else if is_bayer_format pixel_type then
                let color_code = (case map_of BAYER_TO_COLOR_CODE pixel_type of
                                    Some c \<Rightarrow> c | None \<Rightarrow> 0)
                in bind_err (reshape image_array [height, width]) (\<lambda>image.
                     if color_code = 0 then cvtColor image COLOR_BAYER_GR2BGR
                     else if color_code = 1 then cvtColor image COLOR_BAYER_RG2BGR
                     else if color_code = 2 then cvtColor image COLOR_BAYER_GB2BGR
                     else cvtColor image COLOR_BAYER_BG2BGR)
              else if is_mono_format pixel_type then
                bind_err (reshape image_array [height, width])
                  (\<lambda>image. cvtColor image COLOR_GRAY2BGR)
              else
                Inl (HikCameraError
                       (UnsupportedPixelFormat (get_pixel_format_name pixel_type)))))"

section \<open>Configuration (config.py)\<close>

text \<open>
  Python floats are passed through the modelled code unchanged (no floating-point
  arithmetic is performed on them), so a finite float is a \<open>real\<close>.
\<close>

record HikCameraConfig =
  camera_index :: int
  trigger_mode :: string
  width :: int
  height :: int
  exposure :: int
  gain :: real
  fps :: int
  timeout :: int

text \<open>\<^verbatim>\<open>HikCameraConfig.__post_init__\<close>: the validation run when a config is constructed.\<close>

definition post_init :: "HikCameraConfig \<Rightarrow> error + HikCameraConfig" where
  "post_init self =
    (if trigger_mode self \<noteq> ''continuous'' \<and> trigger_mode self \<noteq> ''trigger''
       then Inl (ValueError ''Invalid trigger_mode'')
     else if camera_index self < 0
       then Inl (ValueError ''camera_index must be non-negative'')
     else if width self \<le> 0 \<or> height self \<le> 0
       then Inl (ValueError ''width and height must be positive'')
     else if exposure self < 0
       then Inl (ValueError ''exposure must be non-negative'')
     else if gain self < 0
       then Inl (ValueError ''gain must be non-negative'')
     else if fps self \<le> 0
       then Inl (ValueError ''fps must be positive'')
     else if timeout self \<le> 0
       then Inl (ValueError ''timeout must be positive'')
     else Inr self)"

text \<open>The dataclass defaults.\<close>

definition default_config :: HikCameraConfig where
  "default_config =
     \<lparr>camera_index = 0, trigger_mode = ''continuous'', width = 1280, height = 720,
      exposure = 10000, gain = 0, fps = 30, timeout = 1000\<rparr>"


section \<open>The native SDK\<close>

text \<open>
  The vendor SDK is outside the repository: every call into it is logged, and what it
  returns is given by a parameter \<open>N\<close> of the model, a function from the log so far and
  the call to the reply. A call is the \<^verbatim>\<open>MvCamera\<close> object it is made on (\<open>None\<close> for
  the static functions) and the function with its arguments; the log keeps each call
  with the value it returned.
\<close>

datatype MV_TLAYER =
    MV_GIGE_DEVICE
  | MV_USB_DEVICE
  | MV_GENTL_GIGE_DEVICE
  | MV_GENTL_CAMERALINK_DEVICE
  | MV_GENTL_CXP_DEVICE
  | MV_GENTL_XOF_DEVICE
  | MV_OTHER_DEVICE nat

text \<open>
  \<^verbatim>\<open>MV_CC_DEVICE_INFO\<close>: the transport layer, and from the member of \<^verbatim>\<open>SpecialInfo\<close>
  that belongs to it the model name and serial number (already decoded) and the IP.
\<close>

record MV_CC_DEVICE_INFO =
  nTLayerType :: MV_TLAYER
  chModelName :: string
  chSerialNumber :: string
  nCurrentIp :: nat

datatype enum_value =
    MV_TRIGGER_MODE_ON
  | MV_TRIGGER_MODE_OFF
  | MV_TRIGGER_SOURCE_SOFTWARE

datatype sdk_fn =
    MV_CC_Initialize
  | MV_CC_Finalize
  | MV_CC_EnumDevices
  | MV_CC_CreateHandle MV_CC_DEVICE_INFO
  | MV_CC_OpenDevice
  | MV_CC_CloseDevice
  | MV_CC_DestroyHandle
  | MV_CC_GetOptimalPacketSize
  | MV_CC_SetIntValue string int
  | MV_CC_SetFloatValue string real
  | MV_CC_SetEnumValue string enum_value
  | MV_CC_GetIntValue string
  | MV_CC_GetFloatValue string
  | MV_CC_SetCommandValue string
  | MV_CC_StartGrabbing
  | MV_CC_StopGrabbing
  | MV_CC_GetImageBuffer int
  | MV_CC_FreeImageBuffer

text \<open>
  What a native call gives back: the value it returns (the status; \<open>0\<close> is success) and
  the contents of the structure it fills in.
\<close>

record native_reply =
  ret :: int
  nCurValue :: int
  fCurValue :: real
  deviceList :: "MV_CC_DEVICE_INFO list"
  frame :: MV_FRAME_OUT

type_synonym native_call = "nat option \<times> sdk_fn"

type_synonym sdk = "(native_call \<times> int) list \<Rightarrow> native_call \<Rightarrow> native_reply"

text \<open>
  The process-wide state: the two module globals of hikcamera.py, the log of native
  calls and what the module has printed.
\<close>

datatype printed = GainWarning int

record world =
  SDK_INITIALIZED :: bool
  SDK_INIT_COUNT :: int
  calls :: "(native_call \<times> int) list"
  stdout :: "printed list"

definition native :: "sdk \<Rightarrow> world \<Rightarrow> native_call \<Rightarrow> world \<times> native_reply" where
  "native N w c = (let r = N (calls w) c in (w\<lparr>calls := calls w @ [(c, ret r)]\<rparr>, r))"

section \<open>The capture session (hikcamera.py, class \<^verbatim>\<open>HikCamera\<close>)\<close>

text \<open>\<^verbatim>\<open>get_device_info\<close> (utils.py); the IP address is kept as its four octets.\<close>

record device_info =
  index :: int
  device_type :: string
  model_name :: string
  serial_number :: string
  ip_address :: "(nat \<times> nat \<times> nat \<times> nat) option"

definition get_device_type_string :: "MV_TLAYER \<Rightarrow> string" where
  "get_device_type_string n_tlayer_type =
    (if n_tlayer_type = MV_GIGE_DEVICE \<or> n_tlayer_type = MV_GENTL_GIGE_DEVICE then ''GigE''
     else if n_tlayer_type = MV_USB_DEVICE then ''USB3 Vision''
     else if n_tlayer_type = MV_GENTL_CAMERALINK_DEVICE then ''CameraLink''
     else if n_tlayer_type = MV_GENTL_CXP_DEVICE then ''CoaXPress''
     else if n_tlayer_type = MV_GENTL_XOF_DEVICE then ''XoF''
     else ''Unknown'')"

definition get_device_info :: "MV_CC_DEVICE_INFO \<Rightarrow> device_info" where
  "get_device_info d =
    (let info = \<lparr>index = - 1, device_type = get_device_type_string (nTLayerType d),
                 model_name = [], serial_number = [], ip_address = None\<rparr>;
         ip = nCurrentIp d
     in if nTLayerType d = MV_GIGE_DEVICE \<or> nTLayerType d = MV_GENTL_GIGE_DEVICE then
          info\<lparr>model_name := chModelName d,
               ip_address := Some ((ip div 2 ^ 24) mod 256, (ip div 2 ^ 16) mod 256,
                                   (ip div 2 ^ 8) mod 256, ip mod 256)\<rparr>
        else if nTLayerType d = MV_USB_DEVICE \<or> nTLayerType d = MV_GENTL_CAMERALINK_DEVICE
                \<or> nTLayerType d = MV_GENTL_CXP_DEVICE \<or> nTLayerType d = MV_GENTL_XOF_DEVICE then
          info\<lparr>model_name := chModelName d, serial_number := chSerialNumber d\<rparr>
        else info)"

text \<open>
  The attributes of a \<^verbatim>\<open>HikCamera\<close> object. \<open>cam\<close> is the identity of its
  \<^verbatim>\<open>MvCamera\<close> object, \<open>None\<close> once \<^verbatim>\<open>close\<close> has set \<^verbatim>\<open>self._cam = None\<close>.
\<close>

record HikCamera =
  cam :: "nat option"
  config :: HikCameraConfig
  is_running :: bool
  dev_info :: "device_info option"
  pixel_type :: "MvGvspPixelType option"
  nPayloadSize :: int

text \<open>
  A method returns the process state, the object and either the exception it raised
  or its value. A method call on \<^verbatim>\<open>self._cam\<close> when that is \<^verbatim>\<open>None\<close> raises
  AttributeError.
\<close>

type_synonym 'a outcome = "world \<times> HikCamera \<times> (error + 'a)"

text \<open>
  Two blocks of statements of \<^verbatim>\<open>_auto_connect\<close> that return nothing and raise
  nothing, as functions of the process state. The first sets the optimal packet size
  of a GigE camera; the second writes the trigger mode (and, for trigger mode, the
  software trigger source), and is the same block of statements in \<^verbatim>\<open>set_params\<close>.
  The statuses of these writes are not looked at.
\<close>

definition optimize_packet_size ::
  "sdk \<Rightarrow> world \<Rightarrow> nat \<Rightarrow> MV_CC_DEVICE_INFO \<Rightarrow> world"
where
  "optimize_packet_size N w c mvcc_dev_info =
    (if nTLayerType mvcc_dev_info = MV_GIGE_DEVICE then
       let (w1, nPacketSize) = native N w (Some c, MV_CC_GetOptimalPacketSize) in
       if ret nPacketSize > 0
       then fst (native N w1
              (Some c, MV_CC_SetIntValue ''GevSCPSPacketSize'' (ret nPacketSize)))
       else w1
     else w)"

definition apply_trigger_mode :: "sdk \<Rightarrow> world \<Rightarrow> nat \<Rightarrow> string \<Rightarrow> world" where
  "apply_trigger_mode N w c mode =
    (if mode = ''trigger'' then
       fst (native N
             (fst (native N w (Some c, MV_CC_SetEnumValue ''TriggerMode'' MV_TRIGGER_MODE_ON)))
             (Some c, MV_CC_SetEnumValue ''TriggerSource'' MV_TRIGGER_SOURCE_SOFTWARE))
     else
       fst (native N w (Some c, MV_CC_SetEnumValue ''TriggerMode'' MV_TRIGGER_MODE_OFF)))"

definition auto_connect :: "sdk \<Rightarrow> world \<Rightarrow> HikCamera \<Rightarrow> unit outcome" where
  "auto_connect N w self =
    (let (w1, r1) = native N w (None, MV_CC_EnumDevices) in
     if ret r1 \<noteq> 0 then (w1, self, Inl (HikCameraError (EnumDevicesFailed (ret r1))))
     else if length (deviceList r1) = 0 then (w1, self, Inl (HikCameraError NoDeviceFound))
     else
       let idx = camera_index (config self) in
       if idx \<ge> int (length (deviceList r1))
       then (w1, self, Inl (HikCameraError (IndexOutOfRange idx (length (deviceList r1)))))
       else if idx < 0 then (w1, self, Inl NullPointerAccess)
       else
         let mvcc_dev_info = deviceList r1 ! nat idx;
             self1 = self\<lparr>dev_info := Some (get_device_info mvcc_dev_info)\<rparr>
         in case cam self1 of
              None \<Rightarrow> (w1, self1, Inl AttributeError)
            | Some c \<Rightarrow>
                let (w2, r2) = native N w1 (Some c, MV_CC_CreateHandle mvcc_dev_info) in
                if ret r2 \<noteq> 0
                then (w2, self1, Inl (HikCameraError (CreateHandleFailed (ret r2))))
                else
                  let (w3, r3) = native N w2 (Some c, MV_CC_OpenDevice) in
                  if ret r3 \<noteq> 0
                  then let (w4, r4) = native N w3 (Some c, MV_CC_DestroyHandle)
                       in (w4, self1, Inl (HikCameraError (OpenDeviceFailed (ret r3))))
                  else
                    let w5 = optimize_packet_size N w3 c mvcc_dev_info;
                        w6 = apply_trigger_mode N w5 c (trigger_mode (config self1));
                        (w7, r7) = native N w6 (Some c, MV_CC_GetIntValue ''PayloadSize'')
                    in if ret r7 \<noteq> 0
                       then (w7, self1, Inl (HikCameraError (PayloadSizeFailed (ret r7))))
                       else (w7, self1\<lparr>nPayloadSize := nCurValue r7\<rparr>, Inr ()))"

text \<open>
  \<^verbatim>\<open>HikCamera.__init__\<close>. \<open>cid\<close> is the identity of the new \<^verbatim>\<open>MvCamera()\<close> object.
  When the constructor raises there is no object: the result is the exception alone.
\<close>

definition init ::
  "sdk \<Rightarrow> world \<Rightarrow> nat \<Rightarrow> int \<Rightarrow> string \<Rightarrow> HikCameraConfig option \<Rightarrow> world \<times> (error + HikCamera)"
where
  "init N w cid a_camera_index a_trigger_mode a_config =
    (let (w1, failed) =
           (if \<not> SDK_INITIALIZED w then
              let (w', r) = native N w (None, MV_CC_Initialize) in
              if ret r \<noteq> 0 then (w', Some (ret r))
              else (w'\<lparr>SDK_INITIALIZED := True\<rparr>, None)
            else (w, None))
     in case failed of
          Some code \<Rightarrow> (w1, Inl (HikCameraError (SDKInitFailed code)))
        | None \<Rightarrow>
            let w2 = w1\<lparr>SDK_INIT_COUNT := SDK_INIT_COUNT w1 + 1\<rparr> in
            case (case a_config of
                    Some c \<Rightarrow> Inr c
                  | None \<Rightarrow> post_init (default_config\<lparr>camera_index := a_camera_index,
                                                       trigger_mode := a_trigger_mode\<rparr>)) of
              Inl e \<Rightarrow> (w2, Inl e)
            | Inr cfg \<Rightarrow>
                let self = \<lparr>cam = Some cid, config = cfg, is_running = False,
                            dev_info = None, pixel_type = None, nPayloadSize = 0\<rparr>;
                    (w3, self', r) = auto_connect N w2 self
                in case r of Inl e \<Rightarrow> (w3, Inl e) | Inr u \<Rightarrow> (w3, Inr self'))"

definition start :: "sdk \<Rightarrow> world \<Rightarrow> HikCamera \<Rightarrow> unit outcome" where
  "start N w self =
    (if is_running self then (w, self, Inr ())
     else case cam self of
            None \<Rightarrow> (w, self, Inl AttributeError)
          | Some c \<Rightarrow>
              let (w1, r) = native N w (Some c, MV_CC_StartGrabbing) in
              if ret r \<noteq> 0 then (w1, self, Inl (HikCameraError (StartGrabbingFailed (ret r))))
              else (w1, self\<lparr>is_running := True\<rparr>, Inr ()))"

definition stop :: "sdk \<Rightarrow> world \<Rightarrow> HikCamera \<Rightarrow> unit outcome" where
  "stop N w self =
    (if \<not> is_running self then (w, self, Inr ())
     else case cam self of
            None \<Rightarrow> (w, self, Inl AttributeError)
          | Some c \<Rightarrow>
              let (w1, r) = native N w (Some c, MV_CC_StopGrabbing) in
              if ret r \<noteq> 0 then (w1, self, Inl (HikCameraError (StopGrabbingFailed (ret r))))
              else (w1, self\<lparr>is_running := False\<rparr>, Inr ()))"

text \<open>
  \<^verbatim>\<open>get_image\<close>. \<^verbatim>\<open>timeout or self._config.timeout\<close> takes the configured timeout
  when the argument is \<^verbatim>\<open>None\<close> or \<open>0\<close>. \<^verbatim>\<open>_convert_frame_to_bgr\<close> stores the frame's
  pixel type in \<^verbatim>\<open>self._pixel_type\<close> before it converts; the \<^verbatim>\<open>finally\<close> block frees
  the buffer whether or not the conversion raised.
\<close>

definition get_image :: "cvt \<Rightarrow> sdk \<Rightarrow> world \<Rightarrow> HikCamera \<Rightarrow> int option \<Rightarrow> ndarray outcome" where
  "get_image cvtColor N w self a_timeout =
    (if \<not> is_running self then (w, self, Inl (HikCameraError NotStreaming))
     else
       let t = (case a_timeout of
                  None \<Rightarrow> timeout (config self)
                | Some v \<Rightarrow> if v = 0 then timeout (config self) else v)
       in case cam self of
            None \<Rightarrow> (w, self, Inl AttributeError)
          | Some c \<Rightarrow>
              let (w1, r) = native N w (Some c, MV_CC_GetImageBuffer t) in
              if pBufAddr (frame r) = None \<or> ret r \<noteq> 0
              then (w1, self, Inl (HikCameraError (GetImageFailed (ret r))))
              else
                let self1 = self\<lparr>pixel_type := Some (enPixelType (frame r))\<rparr>;
                    image = convert_frame_to_bgr cvtColor (frame r);
                    (w2, r2) = native N w1 (Some c, MV_CC_FreeImageBuffer)
                in (w2, self1, image))"

definition trigger_and_get_image ::
  "cvt \<Rightarrow> sdk \<Rightarrow> world \<Rightarrow> HikCamera \<Rightarrow> int option \<Rightarrow> ndarray outcome"
where
  "trigger_and_get_image cvtColor N w self a_timeout =
    (if trigger_mode (config self) \<noteq> ''trigger''
     then (w, self, Inl (HikCameraError WrongTriggerMode))
     else case cam self of
            None \<Rightarrow> (w, self, Inl AttributeError)
          | Some c \<Rightarrow>
              let (w1, r) = native N w (Some c, MV_CC_SetCommandValue ''TriggerSoftware'') in
              if ret r \<noteq> 0 then (w1, self, Inl (HikCameraError (TriggerFailed (ret r))))
              else get_image cvtColor N w1 self a_timeout)"

text \<open>
  \<^verbatim>\<open>close\<close>. The native close and destroy calls return a status and raise nothing, so
  the \<^verbatim>\<open>try\<close>/\<^verbatim>\<open>except\<close> around them catches nothing in the model; their statuses
  are not looked at.
\<close>

definition close :: "sdk \<Rightarrow> world \<Rightarrow> HikCamera \<Rightarrow> unit outcome" where
  "close N w self =
    (let (w1, self1, r) = (if is_running self then stop N w self else (w, self, Inr ())) in
     case r of
       Inl e \<Rightarrow> (w1, self1, Inl e)
     | Inr u \<Rightarrow>
         let (w2, self2) =
               (case cam self1 of
                  None \<Rightarrow> (w1, self1)
                | Some c \<Rightarrow>
                    (fst (native N (fst (native N w1 (Some c, MV_CC_CloseDevice)))
                            (Some c, MV_CC_DestroyHandle)),
                     self1\<lparr>cam := None\<rparr>));
             w3 = w2\<lparr>SDK_INIT_COUNT := SDK_INIT_COUNT w2 - 1\<rparr>
         in if SDK_INIT_COUNT w3 \<le> 0
            then ((fst (native N w3 (None, MV_CC_Finalize)))\<lparr>SDK_INITIALIZED := False\<rparr>,
                  self2, Inr ())
            else (w3, self2, Inr ()))"

section \<open>Parameter accessors\<close>




text \<open>
  Python's \<^verbatim>\<open>int(x)\<close> on a finite float truncates towards zero: \<open>py_int\<close>.
  The properties \<^verbatim>\<open>exposure\<close>, \<^verbatim>\<open>gain\<close> and \<^verbatim>\<open>fps\<close> (the getters): a query of the
  device that raises when it fails. The exposure getter tries the float query, then the
  integer query, and truncates a float reading to an integer.
\<close>

definition py_int :: "real \<Rightarrow> int" where
  "py_int x = (if 0 \<le> x then \<lfloor>x\<rfloor> else \<lceil>x\<rceil>)"

definition prop_exposure :: "sdk \<Rightarrow> world \<Rightarrow> HikCamera \<Rightarrow> world \<times> (error + int)" where
  "prop_exposure N w self =
    (case cam self of
       None \<Rightarrow> (w, Inl AttributeError)
     | Some c \<Rightarrow>
         let (w1, r1) = native N w (Some c, MV_CC_GetFloatValue ''ExposureTime'') in
         if ret r1 = 0 then (w1, Inr (py_int (fCurValue r1)))
         else
           let (w2, r2) = native N w1 (Some c, MV_CC_GetIntValue ''ExposureTime'') in
           if ret r2 = 0 then (w2, Inr (nCurValue r2))
           else (w2, Inl (HikCameraError (GetFailed ''ExposureTime'' (ret r2)))))"

definition prop_float :: "string \<Rightarrow> sdk \<Rightarrow> world \<Rightarrow> HikCamera \<Rightarrow> world \<times> (error + real)" where
  "prop_float key N w self =
    (case cam self of
       None \<Rightarrow> (w, Inl AttributeError)
     | Some c \<Rightarrow>
         let (w1, r) = native N w (Some c, MV_CC_GetFloatValue key) in
         if ret r \<noteq> 0 then (w1, Inl (HikCameraError (GetFailed key (ret r))))
         else (w1, Inr (fCurValue r)))"

definition prop_gain :: "sdk \<Rightarrow> world \<Rightarrow> HikCamera \<Rightarrow> world \<times> (error + real)" where
  "prop_gain = prop_float ''Gain''"

definition prop_fps :: "sdk \<Rightarrow> world \<Rightarrow> HikCamera \<Rightarrow> world \<times> (error + real)" where
  "prop_fps = prop_float ''AcquisitionFrameRate''"

text \<open>The property setters. Each assigns the cached config field first.\<close>

definition set_width :: "sdk \<Rightarrow> world \<Rightarrow> HikCamera \<Rightarrow> int \<Rightarrow> unit outcome" where
  "set_width N w self v =
    (let self1 = self\<lparr>config := (config self)\<lparr>width := v\<rparr>\<rparr> in
     case cam self1 of
       None \<Rightarrow> (w, self1, Inl AttributeError)
     | Some c \<Rightarrow>
         let (w1, r) = native N w (Some c, MV_CC_SetIntValue ''Width'' v) in
         if ret r \<noteq> 0 then (w1, self1, Inl (HikCameraError (SetFailed ''Width'' (ret r))))
         else (w1, self1, Inr ()))"

definition set_height :: "sdk \<Rightarrow> world \<Rightarrow> HikCamera \<Rightarrow> int \<Rightarrow> unit outcome" where
  "set_height N w self v =
    (let self1 = self\<lparr>config := (config self)\<lparr>height := v\<rparr>\<rparr> in
     case cam self1 of
       None \<Rightarrow> (w, self1, Inl AttributeError)
     | Some c \<Rightarrow>
         let (w1, r) = native N w (Some c, MV_CC_SetIntValue ''Height'' v) in
         if ret r \<noteq> 0 then (w1, self1, Inl (HikCameraError (SetFailed ''Height'' (ret r))))
         else (w1, self1, Inr ()))"

definition set_exposure :: "sdk \<Rightarrow> world \<Rightarrow> HikCamera \<Rightarrow> int \<Rightarrow> unit outcome" where
  "set_exposure N w self v =
    (let self1 = self\<lparr>config := (config self)\<lparr>exposure := v\<rparr>\<rparr> in
     case cam self1 of
       None \<Rightarrow> (w, self1, Inl AttributeError)
     | Some c \<Rightarrow>
         let (w1, r1) = native N w (Some c, MV_CC_SetFloatValue ''ExposureTime'' (of_int v));
             (w2, r2) = (if ret r1 \<noteq> 0
                         then native N w1 (Some c, MV_CC_SetIntValue ''ExposureTime'' v)
                         else (w1, r1))
         in if ret r2 \<noteq> 0
            then (w2, self1, Inl (HikCameraError (SetFailed ''ExposureTime'' (ret r2))))
            else (w2, self1, Inr ()))"

text \<open>The gain setter prints a warning where the other setters raise.\<close>

definition set_gain :: "sdk \<Rightarrow> world \<Rightarrow> HikCamera \<Rightarrow> real \<Rightarrow> unit outcome" where
  "set_gain N w self v =
    (let self1 = self\<lparr>config := (config self)\<lparr>gain := v\<rparr>\<rparr> in
     case cam self1 of
       None \<Rightarrow> (w, self1, Inl AttributeError)
     | Some c \<Rightarrow>
         let (w1, r1) = native N w (Some c, MV_CC_SetFloatValue ''Gain'' v);
             (w2, r2) = (if ret r1 \<noteq> 0
                         then native N w1 (Some c, MV_CC_SetFloatValue ''AnalogGain'' v)
                         else (w1, r1))
         in if ret r2 \<noteq> 0
            then (w2\<lparr>stdout := stdout w2 @ [GainWarning (ret r2)]\<rparr>, self1, Inr ())
            else (w2, self1, Inr ()))"

definition set_fps :: "sdk \<Rightarrow> world \<Rightarrow> HikCamera \<Rightarrow> real \<Rightarrow> unit outcome" where
  "set_fps N w self v =
    (let self1 = self\<lparr>config := (config self)\<lparr>fps := py_int v\<rparr>\<rparr> in
     case cam self1 of
       None \<Rightarrow> (w, self1, Inl AttributeError)
     | Some c \<Rightarrow>
         let (w1, r) = native N w (Some c, MV_CC_SetFloatValue ''AcquisitionFrameRate'' v) in
         if ret r \<noteq> 0
         then (w1, self1, Inl (HikCameraError (SetFailed ''AcquisitionFrameRate'' (ret r))))
         else (w1, self1, Inr ()))"

definition set_offset_x :: "sdk \<Rightarrow> world \<Rightarrow> HikCamera \<Rightarrow> int \<Rightarrow> unit outcome" where
  "set_offset_x N w self v =
    (case cam self of
       None \<Rightarrow> (w, self, Inl AttributeError)
     | Some c \<Rightarrow>
         let (w1, r) = native N w (Some c, MV_CC_SetIntValue ''OffsetX'' v) in
         if ret r \<noteq> 0 then (w1, self, Inl (HikCameraError (SetFailed ''OffsetX'' (ret r))))
         else (w1, self, Inr ()))"

definition set_offset_y :: "sdk \<Rightarrow> world \<Rightarrow> HikCamera \<Rightarrow> int \<Rightarrow> unit outcome" where
  "set_offset_y N w self v =
    (case cam self of
       None \<Rightarrow> (w, self, Inl AttributeError)
     | Some c \<Rightarrow>
         let (w1, r) = native N w (Some c, MV_CC_SetIntValue ''OffsetY'' v) in
         if ret r \<noteq> 0 then (w1, self, Inl (HikCameraError (SetFailed ''OffsetY'' (ret r))))
         else (w1, self, Inr ()))"








section \<open>\<^verbatim>\<open>get_params\<close> and \<^verbatim>\<open>set_params\<close>\<close>



text \<open>
  \<^verbatim>\<open>set_params\<close>: the fields that are not \<^verbatim>\<open>None\<close>, in the order of the source; the
  first exception ends the call.
\<close>

definition and_then :: "unit outcome \<Rightarrow> (world \<Rightarrow> HikCamera \<Rightarrow> unit outcome) \<Rightarrow> unit outcome" where
  "and_then m f = (case m of (w, self, Inl e) \<Rightarrow> (w, self, Inl e) | (w, self, Inr u) \<Rightarrow> f w self)"

definition if_given ::
  "'a option \<Rightarrow> (world \<Rightarrow> HikCamera \<Rightarrow> 'a \<Rightarrow> unit outcome) \<Rightarrow> world \<Rightarrow> HikCamera \<Rightarrow> unit outcome"
where
  "if_given a f w self = (case a of None \<Rightarrow> (w, self, Inr ()) | Some v \<Rightarrow> f w self v)"

definition set_trigger_mode :: "sdk \<Rightarrow> world \<Rightarrow> HikCamera \<Rightarrow> string \<Rightarrow> unit outcome" where
  "set_trigger_mode N w self v =
    (if v \<noteq> ''continuous'' \<and> v \<noteq> ''trigger''
     then (w, self, Inl (HikCameraError (InvalidTriggerMode v)))
     else
       let self1 = self\<lparr>config := (config self)\<lparr>trigger_mode := v\<rparr>\<rparr> in
       case cam self1 of
         None \<Rightarrow> (w, self1, Inl AttributeError)
       | Some c \<Rightarrow> (apply_trigger_mode N w c v, self1, Inr ()))"

definition set_params ::
  "sdk \<Rightarrow> world \<Rightarrow> HikCamera \<Rightarrow> int option \<Rightarrow> int option \<Rightarrow> int option \<Rightarrow> real option \<Rightarrow>
   real option \<Rightarrow> string option \<Rightarrow> int option \<Rightarrow> int option \<Rightarrow> unit outcome"
where
  "set_params N w self a_width a_height a_exposure a_gain a_fps a_trigger_mode
      a_offset_x a_offset_y =
    and_then (if_given a_width (set_width N) w self) (\<lambda>w self.
    and_then (if_given a_height (set_height N) w self) (\<lambda>w self.
    and_then (if_given a_exposure (set_exposure N) w self) (\<lambda>w self.
    and_then (if_given a_gain (set_gain N) w self) (\<lambda>w self.
    and_then (if_given a_fps (set_fps N) w self) (\<lambda>w self.
    and_then (if_given a_trigger_mode (set_trigger_mode N) w self) (\<lambda>w self.
    and_then (if_given a_offset_x (set_offset_x N) w self) (\<lambda>w self.
    if_given a_offset_y (set_offset_y N) w self)))))))"

section \<open>The demosaic pattern of a Bayer format, as the specification words it\<close>

text \<open>
  The specification speaks of the colour pattern of a Bayer format (GR, RG, GB or BG),
  at any bit depth, packed or not. \<open>spec_bayer_pattern\<close> reads the pattern off the
  name of the format; \<open>spec_pattern_code\<close> and \<open>spec_pattern_demosaic\<close> are the code
  and the OpenCV conversion the specification associates with a pattern. They are
  compared with the table and the dispatch of the source below.
\<close>

datatype bayer_pattern = GR | RG | GB | BG

fun spec_bayer_pattern :: "MvGvspPixelType \<Rightarrow> bayer_pattern option" where
  "spec_bayer_pattern PixelType_Gvsp_BayerGR8 = Some GR"
| "spec_bayer_pattern PixelType_Gvsp_BayerGR10 = Some GR"
| "spec_bayer_pattern PixelType_Gvsp_BayerGR12 = Some GR"
| "spec_bayer_pattern PixelType_Gvsp_BayerGR10_Packed = Some GR"
| "spec_bayer_pattern PixelType_Gvsp_BayerGR12_Packed = Some GR"
| "spec_bayer_pattern PixelType_Gvsp_BayerRG8 = Some RG"
| "spec_bayer_pattern PixelType_Gvsp_BayerRG10 = Some RG"
| "spec_bayer_pattern PixelType_Gvsp_BayerRG12 = Some RG"
| "spec_bayer_pattern PixelType_Gvsp_BayerRG10_Packed = Some RG"
| "spec_bayer_pattern PixelType_Gvsp_BayerRG12_Packed = Some RG"
| "spec_bayer_pattern PixelType_Gvsp_BayerGB8 = Some GB"
| "spec_bayer_pattern PixelType_Gvsp_BayerGB10 = Some GB"
| "spec_bayer_pattern PixelType_Gvsp_BayerGB12 = Some GB"
| "spec_bayer_pattern PixelType_Gvsp_BayerGB10_Packed = Some GB"
| "spec_bayer_pattern PixelType_Gvsp_BayerGB12_Packed = Some GB"
| "spec_bayer_pattern PixelType_Gvsp_BayerBG8 = Some BG"
| "spec_bayer_pattern PixelType_Gvsp_BayerBG10 = Some BG"
| "spec_bayer_pattern PixelType_Gvsp_BayerBG12 = Some BG"
| "spec_bayer_pattern PixelType_Gvsp_BayerBG10_Packed = Some BG"
| "spec_bayer_pattern PixelType_Gvsp_BayerBG12_Packed = Some BG"
| "spec_bayer_pattern _ = None"

fun spec_pattern_code :: "bayer_pattern \<Rightarrow> nat" where
  "spec_pattern_code GR = 0"
| "spec_pattern_code RG = 1"
| "spec_pattern_code GB = 2"
| "spec_pattern_code BG = 3"

fun spec_pattern_demosaic :: "bayer_pattern \<Rightarrow> cv_code" where
  "spec_pattern_demosaic GR = COLOR_BAYER_GR2BGR"
| "spec_pattern_demosaic RG = COLOR_BAYER_RG2BGR"
| "spec_pattern_demosaic GB = COLOR_BAYER_GB2BGR"
| "spec_pattern_demosaic BG = COLOR_BAYER_BG2BGR"

section \<open>Concrete devices and sessions\<close>

text \<open>
  A native layer that accepts every call: one USB camera is enumerated, every call
  returns status \<open>0\<close>, an integer query reads \<open>4096\<close> and a float query \<open>25\<close>.
  \<open>sdk_failing bad code\<close> is the same layer, except that the calls \<open>bad\<close> selects
  return \<open>code\<close>.
\<close>

definition empty_frame :: MV_FRAME_OUT where
  "empty_frame = \<lparr>pBufAddr = None, nWidth = 0, nHeight = 0,
                   enPixelType = PixelType_Gvsp_Undefined, nFrameLen = 0\<rparr>"

definition ok_reply :: native_reply where
  "ok_reply = \<lparr>ret = 0, nCurValue = 4096, fCurValue = 25, deviceList = [],
                frame = empty_frame\<rparr>"

definition usb_device :: MV_CC_DEVICE_INFO where
  "usb_device = \<lparr>nTLayerType = MV_USB_DEVICE, chModelName = ''MV-CA016-10UC'',
                  chSerialNumber = ''00F12345678'', nCurrentIp = 0\<rparr>"

definition sdk_ok :: sdk where
  "sdk_ok hist call =
     (if snd call = MV_CC_EnumDevices then ok_reply\<lparr>deviceList := [usb_device]\<rparr>
      else ok_reply)"

definition sdk_failing :: "(sdk_fn \<Rightarrow> bool) \<Rightarrow> int \<Rightarrow> sdk" where
  "sdk_failing bad code hist call =
     (if bad (snd call) then (sdk_ok hist call)\<lparr>ret := code\<rparr> else sdk_ok hist call)"

fun is_write :: "sdk_fn \<Rightarrow> bool" where
  "is_write (MV_CC_SetIntValue k v) = True"
| "is_write (MV_CC_SetFloatValue k v) = True"
| "is_write (MV_CC_SetEnumValue k v) = True"
| "is_write _ = False"

text \<open>A process in which one session is connected, and that session.\<close>

definition world0 :: world where
  "world0 = \<lparr>SDK_INITIALIZED = True, SDK_INIT_COUNT = 1, calls = [], stdout = []\<rparr>"

definition session0 :: HikCamera where
  "session0 = \<lparr>cam = Some 0, config = default_config, is_running = False,
                dev_info = None, pixel_type = None, nPayloadSize = 4096\<rparr>"

definition trigger_session :: HikCamera where
  "trigger_session = session0\<lparr>config := default_config\<lparr>trigger_mode := ''trigger''\<rparr>\<rparr>"

text \<open>
  A stand-in for \<^verbatim>\<open>cv2.cvtColor\<close> for concrete runs: it keeps rows and columns
  and gives three zero channels.
\<close>

definition cvt_zero :: cvt where
  "cvt_zero img code =
     Inr \<lparr>shape = take 2 (shape img) @ [3],
          data = replicate (prod_list (take 2 (shape img)) * 3) 0\<rparr>"

section \<open>Connection errors and session lifetimes\<close>


text \<open>How often a native function was called, by the log.\<close>

definition count_fn :: "sdk_fn \<Rightarrow> (native_call \<times> int) list \<Rightarrow> nat" where
  "count_fn f l = length (filter (\<lambda>e. snd (fst e) = f) l)"

text \<open>A process that has not created a session yet.\<close>

definition fresh_world :: world where
  "fresh_world = \<lparr>SDK_INITIALIZED = False, SDK_INIT_COUNT = 0, calls = [], stdout = []\<rparr>"

text \<open>
  A program that creates and closes sessions: \<open>Create i cfg\<close> is
  \<^verbatim>\<open>s_i = HikCamera(config=cfg)\<close> (\<^verbatim>\<open>HikCamera()\<close> when \<open>cfg\<close> is \<open>None\<close>), with \<open>i\<close> also
  the identity of the session's camera object; \<open>Close i\<close> is \<^verbatim>\<open>s_i.close()\<close>. The run is
  \<open>None\<close> when a statement raises or closes a session that was never created, otherwise
  the process state at the end.
\<close>

datatype event = Create nat "HikCameraConfig option" | Close nat

fun run :: "sdk \<Rightarrow> event list \<Rightarrow> world \<Rightarrow> (nat \<rightharpoonup> HikCamera) \<Rightarrow> world option" where
  "run N [] w ss = Some w"
| "run N (Create i cfg # evs) w ss =
     (case init N w i 0 ''continuous'' cfg of
        (w', Inl e) \<Rightarrow> None
      | (w', Inr s) \<Rightarrow> run N evs w' (ss(i \<mapsto> s)))"
| "run N (Close i # evs) w ss =
     (case ss i of
        None \<Rightarrow> None
      | Some s \<Rightarrow>
          (case close N w s of
             (w', s', Inl e) \<Rightarrow> None
           | (w', s', Inr u) \<Rightarrow> run N evs w' (ss(i \<mapsto> s'))))"

text \<open>
  The program run in a process that has not created a session yet, and the number of
  native initialize and finalize calls a process has made.
\<close>

definition run_fresh :: "sdk \<Rightarrow> event list \<Rightarrow> world option" where
  "run_fresh N evs = run N evs fresh_world Map.empty"

definition lifecycle_calls :: "world \<Rightarrow> nat \<times> nat" where
  "lifecycle_calls w =
     (count_fn MV_CC_Initialize (calls w), count_fn MV_CC_Finalize (calls w))"


text \<open>
  The native calls of the two configuration blocks of \<^verbatim>\<open>_auto_connect\<close> (packet size
  and trigger mode).
\<close>

fun is_config_fn :: "sdk_fn \<Rightarrow> bool" where
  "is_config_fn MV_CC_GetOptimalPacketSize = True"
| "is_config_fn (MV_CC_SetIntValue k v) = True"
| "is_config_fn (MV_CC_SetEnumValue k v) = True"
| "is_config_fn _ = False"

definition config_call :: "native_call \<times> int \<Rightarrow> bool" where
  "config_call e = is_config_fn (snd (fst e))"

section \<open>Frame conversion: properties\<close>

lemmas fixture_defs = empty_frame_def ok_reply_def usb_device_def sdk_ok_def sdk_failing_def
  world0_def session0_def trigger_session_def default_config_def cvt_zero_def

lemma bayer_accepted_iff_pattern:
  "is_bayer_format pt \<longleftrightarrow> spec_bayer_pattern pt \<noteq> None"
  by (cases pt) (simp_all add: is_bayer_format_def BAYER_TO_COLOR_CODE_def)

lemma bayer_code_of_pattern:
  "spec_bayer_pattern pt = Some p \<Longrightarrow>
   map_of BAYER_TO_COLOR_CODE pt = Some (spec_pattern_code p)"
  by (cases pt) (auto simp add: BAYER_TO_COLOR_CODE_def)

lemma bayer_not_rgb: "is_bayer_format pt \<Longrightarrow> \<not> is_rgb_format pt"
  by (cases pt) (simp_all add: is_bayer_format_def BAYER_TO_COLOR_CODE_def is_rgb_format_def)

text \<open>
  C1. A Mono16 frame of 2 by 2 pixels has 8 bytes (two per pixel). The converter reads
  them as eight uint8 elements and reshapes them to 2 by 2, which numpy refuses: the
  conversion raises ValueError instead of giving a 2 by 2 by 3 image, whatever
  \<^verbatim>\<open>cv2.cvtColor\<close> would do.
\<close>

theorem convert_mono16_raises:
  "convert_frame_to_bgr cvtColor
     \<lparr>pBufAddr = Some (replicate 8 0), nWidth = 2, nHeight = 2,
      enPixelType = PixelType_Gvsp_Mono16, nFrameLen = 8\<rparr>
   = Inl (ValueError ''cannot reshape array'')"
  by (simp add: convert_frame_to_bgr_def is_rgb_format_def is_bayer_format_def
      BAYER_TO_COLOR_CODE_def is_mono_format_def copy_bytes_def bind_err_def
      frombuffer_def reshape_def)

text \<open>
  The RGB-family and Mono8 formats, for comparison: with a buffer of the length the
  format implies (three or four bytes per pixel, or one), the reshape succeeds; BGR8
  is returned as the height by width by 3 array of the copied bytes, the others are
  handed to \<^verbatim>\<open>cv2.cvtColor\<close> with the matching conversion code.
\<close>

lemma convert_8bit_rgb_mono:
  fixes f :: MV_FRAME_OUT
  assumes "pBufAddr f = Some buf" and "length buf = nFrameLen f"
  shows "enPixelType f = PixelType_Gvsp_BGR8_Packed \<Longrightarrow>
           nFrameLen f = nHeight f * nWidth f * 3 \<Longrightarrow>
           convert_frame_to_bgr cvtColor f =
             Inr \<lparr>shape = [nHeight f, nWidth f, 3], data = buf\<rparr>"
    and "enPixelType f = PixelType_Gvsp_RGB8_Packed \<Longrightarrow>
           nFrameLen f = nHeight f * nWidth f * 3 \<Longrightarrow>
           convert_frame_to_bgr cvtColor f =
             cvtColor \<lparr>shape = [nHeight f, nWidth f, 3], data = buf\<rparr> COLOR_RGB2BGR"
    and "enPixelType f = PixelType_Gvsp_RGBA8_Packed \<Longrightarrow>
           nFrameLen f = nHeight f * nWidth f * 4 \<Longrightarrow>
           convert_frame_to_bgr cvtColor f =
             cvtColor \<lparr>shape = [nHeight f, nWidth f, 4], data = buf\<rparr> COLOR_RGBA2BGR"
    and "enPixelType f = PixelType_Gvsp_BGRA8_Packed \<Longrightarrow>
           nFrameLen f = nHeight f * nWidth f * 4 \<Longrightarrow>
           convert_frame_to_bgr cvtColor f =
             cvtColor \<lparr>shape = [nHeight f, nWidth f, 4], data = buf\<rparr> COLOR_BGRA2BGR"
    and "enPixelType f = PixelType_Gvsp_Mono8 \<Longrightarrow>
           nFrameLen f = nHeight f * nWidth f \<Longrightarrow>
           convert_frame_to_bgr cvtColor f =
             cvtColor \<lparr>shape = [nHeight f, nWidth f], data = buf\<rparr> COLOR_GRAY2BGR"
  using assms
  by (simp_all add: convert_frame_to_bgr_def is_rgb_format_def is_bayer_format_def
      BAYER_TO_COLOR_CODE_def is_mono_format_def copy_bytes_def bind_err_def
      frombuffer_def reshape_def Let_def)

text \<open>
  C9. The classifier accepts exactly the Bayer formats that have a colour pattern; the
  table gives each the code of its pattern (GR 0, RG 1, GB 2, BG 3) at every bit depth,
  packed or not; and on every frame of such a format with a buffer the converter
  applies, to the copied bytes reshaped to height by width, the demosaic conversion of
  that pattern.
\<close>

theorem bayer_code_and_demosaic_by_pattern:
  "(is_bayer_format pt \<longleftrightarrow> spec_bayer_pattern pt \<noteq> None) \<and>
   (\<forall>p. spec_bayer_pattern pt = Some p \<longrightarrow>
      map_of BAYER_TO_COLOR_CODE pt = Some (spec_pattern_code p) \<and>
      (\<forall>cvtColor (f :: MV_FRAME_OUT) buf. enPixelType f = pt \<and> pBufAddr f = Some buf \<longrightarrow>
         convert_frame_to_bgr cvtColor f =
           bind_err (bind_err (copy_bytes buf (nFrameLen f))
                      (\<lambda>bs. reshape (frombuffer bs) [nHeight f, nWidth f]))
             (\<lambda>image. cvtColor image (spec_pattern_demosaic p))))"
proof (intro conjI allI impI)
  show "is_bayer_format pt \<longleftrightarrow> spec_bayer_pattern pt \<noteq> None"
    by (rule bayer_accepted_iff_pattern)
next
  fix p assume "spec_bayer_pattern pt = Some p"
  then show "map_of BAYER_TO_COLOR_CODE pt = Some (spec_pattern_code p)"
    by (rule bayer_code_of_pattern)
next
  fix p cvtColor buf and f :: MV_FRAME_OUT
  assume p: "spec_bayer_pattern pt = Some p"
    and f: "enPixelType f = pt \<and> pBufAddr f = Some buf"
  from p have b: "is_bayer_format pt" by (simp add: bayer_accepted_iff_pattern)
  then have nr: "\<not> is_rgb_format pt" by (rule bayer_not_rgb)
  from p have c: "map_of BAYER_TO_COLOR_CODE pt = Some (spec_pattern_code p)"
    by (rule bayer_code_of_pattern)
  show "convert_frame_to_bgr cvtColor f =
           bind_err (bind_err (copy_bytes buf (nFrameLen f))
                      (\<lambda>bs. reshape (frombuffer bs) [nHeight f, nWidth f]))
             (\<lambda>image. cvtColor image (spec_pattern_demosaic p))"
    using f b nr c
    by (cases p) (simp_all add: convert_frame_to_bgr_def bind_err_def Let_def split: sum.splits)
qed

theorem bayer_code_and_demosaic_by_pattern_witness:
  "is_bayer_format PixelType_Gvsp_BayerRG12_Packed
   \<and> spec_bayer_pattern PixelType_Gvsp_BayerRG12_Packed = Some RG
   \<and> map_of BAYER_TO_COLOR_CODE PixelType_Gvsp_BayerRG12_Packed = Some 1
   \<and> convert_frame_to_bgr cvt_zero
        \<lparr>pBufAddr = Some [1, 2, 3, 4], nWidth = 2, nHeight = 2,
         enPixelType = PixelType_Gvsp_BayerRG12_Packed, nFrameLen = 4\<rparr>
      = cvt_zero \<lparr>shape = [2, 2], data = [1, 2, 3, 4]\<rparr> COLOR_BAYER_RG2BGR"
proof -
  have p: "spec_bayer_pattern PixelType_Gvsp_BayerRG12_Packed = Some RG" by simp
  note t = bayer_code_and_demosaic_by_pattern [of PixelType_Gvsp_BayerRG12_Packed]
  from t p have a: "is_bayer_format PixelType_Gvsp_BayerRG12_Packed" by simp
  from t p have b: "map_of BAYER_TO_COLOR_CODE PixelType_Gvsp_BayerRG12_Packed = Some 1"
    by simp
  have c: "convert_frame_to_bgr cvt_zero
        \<lparr>pBufAddr = Some [1, 2, 3, 4], nWidth = 2, nHeight = 2,
         enPixelType = PixelType_Gvsp_BayerRG12_Packed, nFrameLen = 4\<rparr>
      = cvt_zero \<lparr>shape = [2, 2], data = [1, 2, 3, 4]\<rparr> COLOR_BAYER_RG2BGR"
    using t [THEN conjunct2, rule_format, OF p, THEN conjunct2, rule_format,
             of "\<lparr>pBufAddr = Some [1, 2, 3, 4], nWidth = 2, nHeight = 2,
         enPixelType = PixelType_Gvsp_BayerRG12_Packed, nFrameLen = 4\<rparr>" "[1, 2, 3, 4]" cvt_zero]
    by (simp add: copy_bytes_def bind_err_def reshape_def frombuffer_def)
  from a p b c show ?thesis by blast
qed

section \<open>The capture session: properties\<close>

text \<open>
  C10. On a session in trigger mode that holds its camera object and is not streaming,
  \<^verbatim>\<open>trigger_and_get_image\<close> sends the software trigger command, and nothing else, to
  the device and then raises: the not-streaming error when the device accepted the
  command, the trigger failure carrying the status when it did not. No image is
  returned and the session is unchanged.
\<close>

theorem trigger_sent_before_not_streaming:
  assumes "trigger_mode (config self) = ''trigger''" and "\<not> is_running self"
    and "cam self = Some c"
  shows "trigger_and_get_image cvtColor N w self t =
     (let call = (Some c, MV_CC_SetCommandValue ''TriggerSoftware'');
          status = ret (N (calls w) call)
      in (w\<lparr>calls := calls w @ [(call, status)]\<rparr>, self,
          Inl (HikCameraError (if status = 0 then NotStreaming else TriggerFailed status))))"
  using assms
  by (simp add: trigger_and_get_image_def get_image_def native_def Let_def)

theorem trigger_sent_before_not_streaming_witness:
  "trigger_mode (config trigger_session) = ''trigger''
   \<and> \<not> is_running trigger_session
   \<and> cam trigger_session = Some 0
   \<and> trigger_and_get_image cvt_zero sdk_ok world0 trigger_session None =
      (world0\<lparr>calls := [((Some 0, MV_CC_SetCommandValue ''TriggerSoftware''), 0)]\<rparr>,
       trigger_session, Inl (HikCameraError NotStreaming))"
  using trigger_sent_before_not_streaming [of trigger_session 0 cvt_zero sdk_ok world0 None]
  by (simp add: fixture_defs)



text \<open>
  C3. A streaming session whose native stop-grabbing call returns a non-success
  status: \<^verbatim>\<open>close\<close> raises the stop error, and neither closes the device nor
  destroys the handle nor releases its count. And \<^verbatim>\<open>close\<close> on a session that is
  already closed is not a no-op: with two sessions counted, the first \<^verbatim>\<open>close\<close> of
  one of them leaves the count at 1, and a second \<^verbatim>\<open>close\<close> of the same session
  takes it to 0 and finalizes the SDK.
\<close>

theorem close_raises_when_stop_fails:
  "close (sdk_failing ((=) MV_CC_StopGrabbing) 2147483651) world0
         (session0\<lparr>is_running := True\<rparr>) =
     (world0\<lparr>calls := [((Some 0, MV_CC_StopGrabbing), 2147483651)]\<rparr>,
      session0\<lparr>is_running := True\<rparr>,
      Inl (HikCameraError (StopGrabbingFailed 2147483651)))
   \<and> close sdk_ok (world0\<lparr>SDK_INIT_COUNT := 2\<rparr>) session0 =
     (world0\<lparr>calls := [((Some 0, MV_CC_CloseDevice), 0), ((Some 0, MV_CC_DestroyHandle), 0)]\<rparr>,
      session0\<lparr>cam := None\<rparr>, Inr ())
   \<and> close sdk_ok
        (world0\<lparr>calls := [((Some 0, MV_CC_CloseDevice), 0), ((Some 0, MV_CC_DestroyHandle), 0)]\<rparr>)
        (session0\<lparr>cam := None\<rparr>) =
     (world0\<lparr>SDK_INITIALIZED := False, SDK_INIT_COUNT := 0,
             calls := [((Some 0, MV_CC_CloseDevice), 0), ((Some 0, MV_CC_DestroyHandle), 0),
                       ((None, MV_CC_Finalize), 0)]\<rparr>,
      session0\<lparr>cam := None\<rparr>, Inr ())"
  by (simp add: close_def stop_def native_def Let_def fixture_defs)

text \<open>
  C4, the property the code has. On a session that holds its camera object, each of
  the width, height, exposure and fps setters leaves the new value in the cached
  config (fps truncated to an integer) whatever the native write returns; when the
  native write fails (for exposure: the float write and the integer write both fail)
  the setter raises the error of its field with the status.
\<close>

theorem setters_store_config_before_write:
  assumes "cam self = Some c"
  shows "config (fst (snd (set_width N w self i))) = (config self)\<lparr>width := i\<rparr>
     \<and> (ret (N (calls w) (Some c, MV_CC_SetIntValue ''Width'' i)) \<noteq> 0 \<longrightarrow>
          snd (snd (set_width N w self i)) =
            Inl (HikCameraError (SetFailed ''Width''
                   (ret (N (calls w) (Some c, MV_CC_SetIntValue ''Width'' i))))))
     \<and> config (fst (snd (set_height N w self i))) = (config self)\<lparr>height := i\<rparr>
     \<and> (ret (N (calls w) (Some c, MV_CC_SetIntValue ''Height'' i)) \<noteq> 0 \<longrightarrow>
          snd (snd (set_height N w self i)) =
            Inl (HikCameraError (SetFailed ''Height''
                   (ret (N (calls w) (Some c, MV_CC_SetIntValue ''Height'' i))))))
     \<and> config (fst (snd (set_exposure N w self i))) = (config self)\<lparr>exposure := i\<rparr>
     \<and> ((\<forall>hist. ret (N hist (Some c, MV_CC_SetFloatValue ''ExposureTime'' (of_int i))) \<noteq> 0) \<and>
         (\<forall>hist. ret (N hist (Some c, MV_CC_SetIntValue ''ExposureTime'' i)) \<noteq> 0) \<longrightarrow>
          (\<exists>status. status \<noteq> 0 \<and> snd (snd (set_exposure N w self i)) =
            Inl (HikCameraError (SetFailed ''ExposureTime'' status))))
     \<and> config (fst (snd (set_fps N w self x))) = (config self)\<lparr>fps := py_int x\<rparr>
     \<and> (ret (N (calls w) (Some c, MV_CC_SetFloatValue ''AcquisitionFrameRate'' x)) \<noteq> 0 \<longrightarrow>
          snd (snd (set_fps N w self x)) =
            Inl (HikCameraError (SetFailed ''AcquisitionFrameRate''
                   (ret (N (calls w) (Some c, MV_CC_SetFloatValue ''AcquisitionFrameRate'' x))))))"
proof -
  have a: "config (fst (snd (set_width N w self i))) = (config self)\<lparr>width := i\<rparr>"
    using assms by (simp add: set_width_def native_def Let_def)
  have b: "ret (N (calls w) (Some c, MV_CC_SetIntValue ''Width'' i)) \<noteq> 0 \<longrightarrow>
          snd (snd (set_width N w self i)) =
            Inl (HikCameraError (SetFailed ''Width''
                   (ret (N (calls w) (Some c, MV_CC_SetIntValue ''Width'' i)))))"
    using assms by (simp add: set_width_def native_def Let_def)
  have c: "config (fst (snd (set_height N w self i))) = (config self)\<lparr>height := i\<rparr>"
    using assms by (simp add: set_height_def native_def Let_def)
  have d: "ret (N (calls w) (Some c, MV_CC_SetIntValue ''Height'' i)) \<noteq> 0 \<longrightarrow>
          snd (snd (set_height N w self i)) =
            Inl (HikCameraError (SetFailed ''Height''
                   (ret (N (calls w) (Some c, MV_CC_SetIntValue ''Height'' i)))))"
    using assms by (simp add: set_height_def native_def Let_def)
  have e: "config (fst (snd (set_exposure N w self i))) = (config self)\<lparr>exposure := i\<rparr>"
    using assms by (simp add: set_exposure_def native_def Let_def split: prod.splits)
  have f: "(\<forall>hist. ret (N hist (Some c, MV_CC_SetFloatValue ''ExposureTime'' (of_int i))) \<noteq> 0) \<and>
         (\<forall>hist. ret (N hist (Some c, MV_CC_SetIntValue ''ExposureTime'' i)) \<noteq> 0) \<longrightarrow>
          (\<exists>status. status \<noteq> 0 \<and> snd (snd (set_exposure N w self i)) =
            Inl (HikCameraError (SetFailed ''ExposureTime'' status)))"
    using assms by (simp add: set_exposure_def native_def Let_def)
  have g: "config (fst (snd (set_fps N w self x))) = (config self)\<lparr>fps := py_int x\<rparr>"
    using assms by (simp add: set_fps_def native_def Let_def)
  have h: "ret (N (calls w) (Some c, MV_CC_SetFloatValue ''AcquisitionFrameRate'' x)) \<noteq> 0 \<longrightarrow>
          snd (snd (set_fps N w self x)) =
            Inl (HikCameraError (SetFailed ''AcquisitionFrameRate''
                   (ret (N (calls w) (Some c, MV_CC_SetFloatValue ''AcquisitionFrameRate'' x)))))"
    using assms by (simp add: set_fps_def native_def Let_def)
  from a b c d e f g h show ?thesis by blast
qed

theorem setters_store_config_before_write_witness:
  "cam session0 = Some 0
   \<and> ret (sdk_failing is_write 2147483910 (calls world0) (Some 0, MV_CC_SetIntValue ''Width'' 640)) \<noteq> 0
   \<and> ret (sdk_failing is_write 2147483910 (calls world0) (Some 0, MV_CC_SetIntValue ''Height'' 640)) \<noteq> 0
   \<and> (\<forall>hist. ret (sdk_failing is_write 2147483910 hist
                  (Some 0, MV_CC_SetFloatValue ''ExposureTime'' (of_int 640))) \<noteq> 0)
   \<and> (\<forall>hist. ret (sdk_failing is_write 2147483910 hist
                  (Some 0, MV_CC_SetIntValue ''ExposureTime'' 640)) \<noteq> 0)
   \<and> ret (sdk_failing is_write 2147483910 (calls world0)
             (Some 0, MV_CC_SetFloatValue ''AcquisitionFrameRate'' 15)) \<noteq> 0
   \<and> config (fst (snd (set_width (sdk_failing is_write 2147483910) world0 session0 640)))
        = default_config\<lparr>width := 640\<rparr>
   \<and> snd (snd (set_width (sdk_failing is_write 2147483910) world0 session0 640))
        = Inl (HikCameraError (SetFailed ''Width'' 2147483910))
   \<and> snd (snd (set_height (sdk_failing is_write 2147483910) world0 session0 640))
        = Inl (HikCameraError (SetFailed ''Height'' 2147483910))
   \<and> (\<exists>status. status \<noteq> 0 \<and>
         snd (snd (set_exposure (sdk_failing is_write 2147483910) world0 session0 640))
           = Inl (HikCameraError (SetFailed ''ExposureTime'' status)))
   \<and> snd (snd (set_fps (sdk_failing is_write 2147483910) world0 session0 15))
        = Inl (HikCameraError (SetFailed ''AcquisitionFrameRate'' 2147483910))"
proof -
  have c: "cam session0 = Some 0" by (simp add: session0_def)
  have h1: "ret (sdk_failing is_write 2147483910 (calls world0) (Some 0, MV_CC_SetIntValue ''Width'' 640)) \<noteq> 0"
    by (simp add: sdk_failing_def)
  have h2: "ret (sdk_failing is_write 2147483910 (calls world0) (Some 0, MV_CC_SetIntValue ''Height'' 640)) \<noteq> 0"
    by (simp add: sdk_failing_def)
  have h3: "\<forall>hist. ret (sdk_failing is_write 2147483910 hist
                  (Some 0, MV_CC_SetFloatValue ''ExposureTime'' (of_int 640))) \<noteq> 0"
    by (simp add: sdk_failing_def)
  have h4: "\<forall>hist. ret (sdk_failing is_write 2147483910 hist
                  (Some 0, MV_CC_SetIntValue ''ExposureTime'' 640)) \<noteq> 0"
    by (simp add: sdk_failing_def)
  have h5: "ret (sdk_failing is_write 2147483910 (calls world0)
             (Some 0, MV_CC_SetFloatValue ''AcquisitionFrameRate'' 15)) \<noteq> 0"
    by (simp add: sdk_failing_def)
  have v: "ret (sdk_failing is_write 2147483910 (calls world0) (Some 0, MV_CC_SetIntValue ''Width'' 640)) = 2147483910"
      "ret (sdk_failing is_write 2147483910 (calls world0) (Some 0, MV_CC_SetIntValue ''Height'' 640)) = 2147483910"
      "ret (sdk_failing is_write 2147483910 (calls world0)
             (Some 0, MV_CC_SetFloatValue ''AcquisitionFrameRate'' 15)) = 2147483910"
      "config session0 = default_config"
    by (simp_all add: sdk_failing_def session0_def)
  note t = setters_store_config_before_write [OF c, of "sdk_failing is_write 2147483910" world0 640 15]
  from t h1 h2 h3 h4 h5 c show ?thesis unfolding v by blast
qed

text \<open>
  C4 as stated fails: the native width write is refused, the setter raises, and the
  cached width has changed from 1280 to 640.
\<close>

theorem width_setter_failure_changes_config:
  "snd (snd (set_width (sdk_failing is_write 2147483910) world0 session0 640))
      = Inl (HikCameraError (SetFailed ''Width'' 2147483910))
   \<and> width (config session0) = 1280
   \<and> width (config (fst (snd (set_width (sdk_failing is_write 2147483910) world0 session0 640)))) = 640"
  by (simp add: set_width_def native_def Let_def fixture_defs)

text \<open>
  C7, the property the code has. \<^verbatim>\<open>set_params\<close> with only a width \<open>v\<close>, on a session
  that holds its camera object, validates nothing: for every \<open>v\<close> it stores \<open>v\<close> in the
  cached config, issues the native write of \<open>v\<close> unchanged as its only native call,
  and raises only when that write returns a non-success status. A non-positive width
  is rejected, with a ValueError, where a config is constructed.
\<close>

theorem set_params_width_written_unvalidated:
  assumes "cam self = Some c"
  shows "set_params N w self (Some v) None None None None None None None =
     (let call = (Some c, MV_CC_SetIntValue ''Width'' v);
          status = ret (N (calls w) call)
      in (w\<lparr>calls := calls w @ [(call, status)]\<rparr>,
          self\<lparr>config := (config self)\<lparr>width := v\<rparr>\<rparr>,
          if status = 0 then Inr () else Inl (HikCameraError (SetFailed ''Width'' status))))
    \<and> (v \<le> 0 \<longrightarrow> (\<exists>msg. post_init (cfg\<lparr>width := v\<rparr>) = Inl (ValueError msg)))"
  using assms
  by (simp add: set_params_def and_then_def if_given_def set_width_def native_def Let_def post_init_def)

theorem set_params_width_written_unvalidated_witness:
  "cam session0 = Some 0 \<and> (- 1 :: int) \<le> 0
   \<and> set_params sdk_ok world0 session0 (Some (- 1)) None None None None None None None =
       (world0\<lparr>calls := [((Some 0, MV_CC_SetIntValue ''Width'' (- 1)), 0)]\<rparr>,
        session0\<lparr>config := default_config\<lparr>width := - 1\<rparr>\<rparr>, Inr ())
   \<and> post_init (default_config\<lparr>width := - 1\<rparr>)
        = Inl (ValueError ''width and height must be positive'')"
proof -
  have c: "cam session0 = Some 0" by (simp add: session0_def)
  note t = set_params_width_written_unvalidated [OF c, of sdk_ok world0 "- 1" default_config]
  have p: "post_init (default_config\<lparr>width := - 1\<rparr>)
        = Inl (ValueError ''width and height must be positive'')"
    by (simp add: post_init_def default_config_def)
  from t c p show ?thesis by (simp add: fixture_defs Let_def)
qed

text \<open>
  C7 as stated fails: \<^verbatim>\<open>set_params(width=-1)\<close> on a device that accepts the write
  returns normally, having written \<open>-1\<close> to the device and to the cached config.
\<close>

theorem set_params_negative_width_reaches_device:
  "set_params sdk_ok world0 session0 (Some (- 1)) None None None None None None None =
     (world0\<lparr>calls := [((Some 0, MV_CC_SetIntValue ''Width'' (- 1)), 0)]\<rparr>,
      session0\<lparr>config := default_config\<lparr>width := - 1\<rparr>\<rparr>, Inr ())"
  by (simp add: set_params_def and_then_def if_given_def set_width_def native_def Let_def fixture_defs)







section \<open>Connecting: properties\<close>

lemma native_eq:
  "native N w c = (w\<lparr>calls := calls w @ [(c, ret (N (calls w) c))]\<rparr>, N (calls w) c)"
  by (simp add: native_def Let_def)


lemma config_fn_not_lifecycle:
  "is_config_fn f \<Longrightarrow> f \<noteq> MV_CC_Initialize \<and> f \<noteq> MV_CC_Finalize"
  by (cases f) simp_all

lemma count_fn_config_calls:
  assumes "list_all config_call mid"
  shows "count_fn MV_CC_Initialize (l @ mid) = count_fn MV_CC_Initialize l"
    and "count_fn MV_CC_Finalize (l @ mid) = count_fn MV_CC_Finalize l"
proof -
  have "filter (\<lambda>e. snd (fst e) = MV_CC_Initialize) mid = []"
    using assms config_fn_not_lifecycle
    by (auto simp: filter_empty_conv list_all_iff config_call_def)
  then show "count_fn MV_CC_Initialize (l @ mid) = count_fn MV_CC_Initialize l"
    by (simp add: count_fn_def)
  have "filter (\<lambda>e. snd (fst e) = MV_CC_Finalize) mid = []"
    using assms config_fn_not_lifecycle
    by (auto simp: filter_empty_conv list_all_iff config_call_def)
  then show "count_fn MV_CC_Finalize (l @ mid) = count_fn MV_CC_Finalize l"
    by (simp add: count_fn_def)
qed

lemma optimize_packet_size_calls:
  "\<exists>mid. optimize_packet_size N w c d = w\<lparr>calls := calls w @ mid\<rparr> \<and> list_all config_call mid"
proof (cases "nTLayerType d = MV_GIGE_DEVICE")
  case False
  then have "optimize_packet_size N w c d = w\<lparr>calls := calls w @ []\<rparr>"
    by (simp add: optimize_packet_size_def)
  moreover have "list_all config_call []" by simp
  ultimately show ?thesis by blast
next
  case g: True
  let ?q = "(Some c, MV_CC_GetOptimalPacketSize) :: native_call"
  let ?r = "N (calls w) ?q"
  show ?thesis
  proof (cases "ret ?r > 0")
    case True
    let ?s = "(Some c, MV_CC_SetIntValue ''GevSCPSPacketSize'' (ret ?r)) :: native_call"
    let ?mid = "[(?q, ret ?r), (?s, ret (N (calls w @ [(?q, ret ?r)]) ?s))]"
    have "optimize_packet_size N w c d = w\<lparr>calls := calls w @ ?mid\<rparr>"
      using g True by (simp add: optimize_packet_size_def native_eq)
    moreover have "list_all config_call ?mid" by (simp add: config_call_def)
    ultimately show ?thesis by blast
  next
    case False
    let ?mid = "[(?q, ret ?r)]"
    have "optimize_packet_size N w c d = w\<lparr>calls := calls w @ ?mid\<rparr>"
      using g False by (simp add: optimize_packet_size_def native_eq)
    moreover have "list_all config_call ?mid" by (simp add: config_call_def)
    ultimately show ?thesis by blast
  qed
qed

lemma apply_trigger_mode_calls:
  "\<exists>mid. apply_trigger_mode N w c mode = w\<lparr>calls := calls w @ mid\<rparr> \<and> list_all config_call mid"
proof (cases "mode = ''trigger''")
  case True
  let ?a = "(Some c, MV_CC_SetEnumValue ''TriggerMode'' MV_TRIGGER_MODE_ON) :: native_call"
  let ?b = "(Some c, MV_CC_SetEnumValue ''TriggerSource'' MV_TRIGGER_SOURCE_SOFTWARE) :: native_call"
  let ?mid = "[(?a, ret (N (calls w) ?a)), (?b, ret (N (calls w @ [(?a, ret (N (calls w) ?a))]) ?b))]"
  have "apply_trigger_mode N w c mode = w\<lparr>calls := calls w @ ?mid\<rparr>"
    using True by (simp add: apply_trigger_mode_def native_eq)
  moreover have "list_all config_call ?mid" by (simp add: config_call_def)
  ultimately show ?thesis by blast
next
  case False
  let ?a = "(Some c, MV_CC_SetEnumValue ''TriggerMode'' MV_TRIGGER_MODE_OFF) :: native_call"
  let ?mid = "[(?a, ret (N (calls w) ?a))]"
  have "apply_trigger_mode N w c mode = w\<lparr>calls := calls w @ ?mid\<rparr>"
    using False by (simp add: apply_trigger_mode_def native_eq)
  moreover have "list_all config_call ?mid" by (simp add: config_call_def)
  ultimately show ?thesis by blast
qed





section \<open>The SDK reference count: properties\<close>

lemma optimize_packet_size_world [simp]:
  "SDK_INITIALIZED (optimize_packet_size N w c d) = SDK_INITIALIZED w"
  "SDK_INIT_COUNT (optimize_packet_size N w c d) = SDK_INIT_COUNT w"
  "count_fn MV_CC_Initialize (calls (optimize_packet_size N w c d)) = count_fn MV_CC_Initialize (calls w)"
  "count_fn MV_CC_Finalize (calls (optimize_packet_size N w c d)) = count_fn MV_CC_Finalize (calls w)"
  using optimize_packet_size_calls [of N w c d] by (auto simp: count_fn_config_calls)

lemma apply_trigger_mode_world [simp]:
  "SDK_INITIALIZED (apply_trigger_mode N w c m) = SDK_INITIALIZED w"
  "SDK_INIT_COUNT (apply_trigger_mode N w c m) = SDK_INIT_COUNT w"
  "count_fn MV_CC_Initialize (calls (apply_trigger_mode N w c m)) = count_fn MV_CC_Initialize (calls w)"
  "count_fn MV_CC_Finalize (calls (apply_trigger_mode N w c m)) = count_fn MV_CC_Finalize (calls w)"
  using apply_trigger_mode_calls [of N w c m] by (auto simp: count_fn_config_calls)

lemma count_fn_simps [simp]:
  "count_fn f [] = 0"
  "count_fn f (e # l) = (if snd (fst e) = f then 1 else 0) + count_fn f l"
  "count_fn f (l @ l') = count_fn f l + count_fn f l'"
  by (simp_all add: count_fn_def)

lemma auto_connect_world:
  assumes "cam self = Some c" and "auto_connect N w self = (w', s', r)"
  shows "SDK_INITIALIZED w' = SDK_INITIALIZED w \<and> SDK_INIT_COUNT w' = SDK_INIT_COUNT w
    \<and> count_fn MV_CC_Initialize (calls w') = count_fn MV_CC_Initialize (calls w)
    \<and> count_fn MV_CC_Finalize (calls w') = count_fn MV_CC_Finalize (calls w)
    \<and> cam s' = cam self \<and> is_running s' = is_running self"
  using assms
  by (auto simp: auto_connect_def native_eq Let_def split: if_splits)

lemma init_ok:
  assumes "init N w cid i t cfg = (w', Inr s)"
  shows "SDK_INITIALIZED w' \<and> SDK_INIT_COUNT w' = SDK_INIT_COUNT w + 1
    \<and> count_fn MV_CC_Initialize (calls w') =
         count_fn MV_CC_Initialize (calls w) + (if SDK_INITIALIZED w then 0 else 1)
    \<and> count_fn MV_CC_Finalize (calls w') = count_fn MV_CC_Finalize (calls w)
    \<and> \<not> is_running s"
proof -
  define w1 where "w1 = (if SDK_INITIALIZED w then w
     else (w\<lparr>calls := calls w @ [((None, MV_CC_Initialize), 0)]\<rparr>)\<lparr>SDK_INITIALIZED := True\<rparr>)"
  define w2 where "w2 = w1\<lparr>SDK_INIT_COUNT := SDK_INIT_COUNT w1 + 1\<rparr>"
  from assms obtain c0 where ac: "auto_connect N w2
      \<lparr>cam = Some cid, config = c0, is_running = False, dev_info = None, pixel_type = None,
       nPayloadSize = 0\<rparr> = (w', s, Inr ())"
    unfolding w2_def w1_def
    by (auto simp: init_def native_eq Let_def split: if_splits prod.splits sum.splits option.splits)
  have p: "SDK_INITIALIZED w2" "SDK_INIT_COUNT w2 = SDK_INIT_COUNT w + 1"
    "count_fn MV_CC_Initialize (calls w2) =
         count_fn MV_CC_Initialize (calls w) + (if SDK_INITIALIZED w then 0 else 1)"
    "count_fn MV_CC_Finalize (calls w2) = count_fn MV_CC_Finalize (calls w)"
    by (simp_all add: w2_def w1_def)
  from auto_connect_world [OF _ ac, of cid] p show ?thesis by simp
qed

lemma close_idle:
  assumes "\<not> is_running s"
  shows "\<exists>w' s'. close N w s = (w', s', Inr ())
    \<and> SDK_INIT_COUNT w' = SDK_INIT_COUNT w - 1
    \<and> count_fn MV_CC_Initialize (calls w') = count_fn MV_CC_Initialize (calls w)
    \<and> count_fn MV_CC_Finalize (calls w') =
         count_fn MV_CC_Finalize (calls w) + (if SDK_INIT_COUNT w - 1 \<le> 0 then 1 else 0)"
  using assms by (cases "cam s") (simp_all add: close_def native_eq Let_def)

text \<open>
  C6, the property the code has. In a fresh process, when two sessions are created
  one after the other (in either order, with any configs) and then each is closed once
  (in either order), with no statement raising, the native initializer has been
  called exactly once and the native finalizer exactly once.
\<close>

theorem two_sessions_one_init_one_finalize:
  assumes ab: "a \<noteq> b"
    and cl: "closes = [Close a, Close b] \<or> closes = [Close b, Close a]"
    and run: "run_fresh N ([Create a ca, Create b cb] @ closes) = Some w'"
  shows "lifecycle_calls w' = (1, 1)"
proof -
  from run [unfolded run_fresh_def] obtain w1 s1 where i1: "init N fresh_world a 0 ''continuous'' ca = (w1, Inr s1)"
    and run1: "run N (Create b cb # closes) w1 [a \<mapsto> s1] = Some w'"
    by (auto split: prod.splits sum.splits)
  from run1 obtain w2 s2 where i2: "init N w1 b 0 ''continuous'' cb = (w2, Inr s2)"
    and run2: "run N closes w2 [a \<mapsto> s1, b \<mapsto> s2] = Some w'"
    by (auto split: prod.splits sum.splits)
  from init_ok [OF i1] have p1: "SDK_INITIALIZED w1" "SDK_INIT_COUNT w1 = 1"
    "count_fn MV_CC_Initialize (calls w1) = 1" "count_fn MV_CC_Finalize (calls w1) = 0"
    "\<not> is_running s1"
    by (simp_all add: fresh_world_def count_fn_def)
  from init_ok [OF i2] p1 have p2: "SDK_INIT_COUNT w2 = 2"
    "count_fn MV_CC_Initialize (calls w2) = 1" "count_fn MV_CC_Finalize (calls w2) = 0"
    "\<not> is_running s2"
    by simp_all
  have step: "count_fn MV_CC_Initialize (calls w') = 1 \<and> count_fn MV_CC_Finalize (calls w') = 1"
    if x: "\<not> is_running x" and y: "\<not> is_running y"
      and r: "(case close N w2 x of (w3, x', Inl e) \<Rightarrow> None
               | (w3, x', Inr u) \<Rightarrow>
                   (case close N w3 y of (w4, y', Inl e) \<Rightarrow> None
                    | (w4, y', Inr u) \<Rightarrow> Some w4)) = Some w'"
    for x y
  proof -
    from close_idle [OF x, of N w2] obtain w3 x' where c3: "close N w2 x = (w3, x', Inr ())"
      and q3: "SDK_INIT_COUNT w3 = 1" "count_fn MV_CC_Initialize (calls w3) = 1"
        "count_fn MV_CC_Finalize (calls w3) = 0"
      using p2 by auto
    from close_idle [OF y, of N w3] obtain w4 y' where c4: "close N w3 y = (w4, y', Inr ())"
      and q4: "count_fn MV_CC_Initialize (calls w4) = 1"
        "count_fn MV_CC_Finalize (calls w4) = 1"
      using q3 by auto
    from r c3 c4 have "w' = w4" by simp
    with q4 show ?thesis by simp
  qed
  from cl have "count_fn MV_CC_Initialize (calls w') = 1 \<and> count_fn MV_CC_Finalize (calls w') = 1"
  proof
    assume "closes = [Close a, Close b]"
    with run2 ab show ?thesis
      by (intro step [of s1 s2]) (auto simp: p1 p2 split: prod.splits sum.splits)
  next
    assume "closes = [Close b, Close a]"
    with run2 ab show ?thesis
      by (intro step [of s2 s1]) (auto simp: p1 p2 split: prod.splits sum.splits)
  qed
  then show ?thesis by (simp add: lifecycle_calls_def)
qed

theorem two_sessions_one_init_one_finalize_witness:
  "(0::nat) \<noteq> 1
   \<and> run_fresh sdk_ok ([Create 0 None, Create 1 None] @ [Close 1, Close 0]) \<noteq> None
   \<and> map_option lifecycle_calls
        (run_fresh sdk_ok ([Create 0 None, Create 1 None] @ [Close 1, Close 0])) = Some (1, 1)"
proof -
  have r: "run_fresh sdk_ok ([Create 0 None, Create 1 None] @ [Close 1, Close 0]) \<noteq> None"
    by (simp add: run_fresh_def init_def close_def post_init_def auto_connect_def
        optimize_packet_size_def apply_trigger_mode_def native_def Let_def fixture_defs
        fresh_world_def)
  then obtain w' where w: "run_fresh sdk_ok ([Create 0 None, Create 1 None] @ [Close 1, Close 0])
      = Some w'" by blast
  have ab: "(0::nat) \<noteq> 1" by simp
  from two_sessions_one_init_one_finalize [OF ab _ w] r w show ?thesis by simp
qed

text \<open>
  C6 as stated fails on a sequence in which the first session is closed before the
  second is created: each of the two sessions is created and closed exactly once, and
  the SDK is initialized twice and finalized twice.
\<close>

theorem sequential_sessions_initialize_twice:
  "map_option lifecycle_calls
     (run_fresh sdk_ok [Create 0 None, Close 0, Create 1 None, Close 1]) = Some (2, 2)"
  by (simp add: run_fresh_def lifecycle_calls_def init_def close_def post_init_def
       auto_connect_def optimize_packet_size_def apply_trigger_mode_def native_def Let_def
       count_fn_def fixture_defs fresh_world_def)

end
